theory Spec2Isabelle
  imports Main "HOL-Library.Word"
begin

unbundle bit_operations_syntax

section \<open>Data model\<close>

text \<open>
  The repository is a Go web API on top of a relational store (gorm). The services
  (\<open>package services\<close>) talk to the store directly; the handlers talk to it through
  the \<open>UserStore\<close> and \<open>GroupStore\<close> interfaces. A table is modelled by the rows it
  holds, a has-one association and a table with a unique key by a map from the key, and
  every function takes the store and returns the store it leaves behind. The store is
  taken to answer every query: the only error a lookup yields is
  \<open>gorm.ErrRecordNotFound\<close>.

  \<open>uuid.UUID\<close> is \<open>[16]byte\<close>, \<open>int64\<close> and Go's \<open>int\<close> (on a 64-bit target) are
  64-bit two's complement integers whose arithmetic wraps; comparisons on them are
  signed (\<open><s\<close>, \<open>\<le>s\<close>).
\<close>

type_synonym uuid = "128 word"
type_synonym int64 = "64 word"
type_synonym go_int = "64 word"
type_synonym bytes = "8 word list"

text \<open>\<open>models.Base\<close> is embedded in every model; its primary key is \<open>Id\<close>.\<close>

record base =
  Id :: uuid

text \<open>
  \<open>models.User\<close>: the columns of the struct. Its association fields (\<open>EmailCode\<close>,
  \<open>LoginTokens\<close>, \<open>TwoFATokens\<close>, ...) are tables of their own in the store.
\<close>

record user = base +
  Name :: string
  Email :: string
  PasswordHash :: bytes
  ProfilePicture :: bytes
  ProfilePictureId :: uuid
  EmailConfirmed :: bool
  TwoFaOTPEnabled :: bool
  OtpSecret :: string
  OtpQrCode :: bytes

text \<open>
  \<open>models.EmailCode\<close> and \<open>models.LoginToken\<close> are written by the services as
  \<open>models.EmailCode{Code: code, ExpirationTime: ...}\<close> and
  \<open>models.LoginToken{Code: code, ExpirationTime: ...}\<close>; a login token also records the
  user it was appended to.
\<close>

record email_code =
  Code :: string
  ExpirationTime :: int64

record login_token =
  Code :: string
  ExpirationTime :: int64
  UserId :: uuid

text \<open>A mail handed to \<open>SendEmail\<close>: recipients, subject, body.\<close>

type_synonym mail = "string list \<times> string \<times> string"

text \<open>
  The store as the services see it: the \<open>users\<close> table, the \<open>ConfirmEmailLastSent\<close>
  table (unique in \<open>email\<close>), the has-one \<open>EmailCode\<close> of each user (keyed by the
  user's id), the \<open>LoginToken\<close> rows, and the mails dispatched so far.
\<close>

record world =
  users :: "user list"
  confirmEmailLastSent :: "string \<rightharpoonup> int64"
  emailCodes :: "uuid \<rightharpoonup> email_code"
  loginTokens :: "login_token list"
  outbox :: "mail list"

datatype error =
    ErrTimeout
  | ErrNotFound
  | ErrEmailAlreadyConfirmed
  | ErrInvalidCredentials
  | ErrRecordNotFound
  | ErrRandRead
  | ErrTemplate
  | ErrorsNew string
  | NilDereference

text \<open>
  What the services use from outside the repository: the configuration
  (\<open>config.Data\<close>), \<open>bcrypt.CompareHashAndPassword\<close> (\<open>True\<close> when it returns
  \<open>nil\<close>), \<open>totp.Validate\<close>, \<open>ParseEmailTemplate\<close> (template name, \<open>Name\<close>,
  \<open>Content\<close>; \<open>None\<close> when it returns an error, which the model calls
  \<open>ErrTemplate\<close>) and, for the handlers, \<open>services.HashToken\<close>.
\<close>

record env =
  EmailEnabled :: bool
  DomainName :: string
  CompareHashAndPassword :: "bytes \<Rightarrow> string \<Rightarrow> bool"
  Validate :: "string \<Rightarrow> string \<Rightarrow> bool"
  ParseEmailTemplate :: "string \<Rightarrow> string \<Rightarrow> string \<Rightarrow> string option"
  HashToken :: "string \<Rightarrow> bytes"

text \<open>The key \<open>totp.Generate\<close> returns: its secret, and its image encoded as PNG
  (\<open>None\<close> when \<open>key.Image\<close> fails).\<close>

record otp_key =
  Secret :: string
  Image :: "bytes option"

section \<open>Services\<close>

definition emailCodeLifetime :: int64 where
  "emailCodeLifetime = 60000 * 5"

definition confirmEmailTimeout :: int64 where
  "confirmEmailTimeout = 60000 * 2"

definition loginTokenLifetime :: int64 where
  "loginTokenLifetime = 60000 * 5"

definition letters :: string where
  "letters = ''0123456789ABCDEFGHIJKLMNOPQRSTUVWXYZabcdefghijklmnopqrstuvwxyz''"

text \<open>
  \<open>generateRandomString\<close>: one \<open>rand.Int(rand.Reader, 62)\<close> per character. The reader
  is the list of the draws it still delivers; a draw \<open>r\<close> yields \<open>r mod 62\<close>, and a read
  from the exhausted reader is the reader's error. The remaining draws are returned
  with the string.
\<close>

fun generateRandomString :: "nat \<Rightarrow> nat list \<Rightarrow> error + (string \<times> nat list)" where
  "generateRandomString 0 rs = Inr ([], rs)"
| "generateRandomString (Suc n) [] = Inl ErrRandRead"
| "generateRandomString (Suc n) (r # rs) =
     (case generateRandomString n rs of
        Inl e \<Rightarrow> Inl e
      | Inr (s, rs') \<Rightarrow> Inr (letters ! (r mod length letters) # s, rs'))"

text \<open>\<open>db.First(&user, "email = ?", email)\<close>.\<close>

definition userByEmail :: "world \<Rightarrow> string \<Rightarrow> user option" where
  "userByEmail w email = find (\<lambda>u. Email u = email) (users w)"

text \<open>
  \<open>db.Joins("EmailCode")\<close> is a left join: a user without a code is loaded with the
  zero \<open>EmailCode\<close>.
\<close>

definition joinedEmailCode :: "world \<Rightarrow> user \<Rightarrow> email_code" where
  "joinedEmailCode w u =
     (case emailCodes w (Id u) of
        None \<Rightarrow> \<lparr>email_code.Code = [], email_code.ExpirationTime = 0\<rparr>
      | Some c \<Rightarrow> c)"

text \<open>\<open>db.Model(&user).Select(cols).Updates(&user)\<close>: the row with the user's id takes
  the selected columns from \<open>user\<close>.\<close>

definition updateUser :: "(user \<Rightarrow> user) \<Rightarrow> user \<Rightarrow> world \<Rightarrow> world" where
  "updateUser cols u w = w\<lparr>users := map (\<lambda>r. if Id r = Id u then cols r else r) (users w)\<rparr>"

text \<open>Lines 116 to 160 of \<open>SendConfirmEmail\<close>, after the rate-limit marker is written.\<close>

definition issueConfirmEmailCode :: "env \<Rightarrow> world \<Rightarrow> string \<Rightarrow> nat list \<Rightarrow> int64 \<Rightarrow> error option \<times> world" where
  "issueConfirmEmailCode env w email rs t_code =
     (case userByEmail w email of
        None \<Rightarrow> (Some ErrNotFound, w)
      | Some u \<Rightarrow>
          if \<not> EmailConfirmed u then
            (case generateRandomString 6 rs of
               Inl e \<Rightarrow> (Some e, w)
             | Inr (code, _) \<Rightarrow>
                 let w' = w\<lparr>emailCodes := (emailCodes w)(Id u \<mapsto>
                            \<lparr>email_code.Code = code,
                             email_code.ExpirationTime = t_code + emailCodeLifetime\<rparr>)\<rparr>
                 in if EmailEnabled env then
                      (case ParseEmailTemplate env ''template.html'' (Name u)
                              (''der Code lautet: '' @ code) of
                         None \<Rightarrow> (Some ErrTemplate, w')
                       | Some body \<Rightarrow>
                           (None, w'\<lparr>outbox := outbox w' @
                              [([Email u],
                                ''H-Bank Best'' @ [CHR 0xC3, CHR 0xA4] @ ''tigungscode'',
                                body)]\<rparr>))
                    else (None, w'))
          else (Some ErrEmailAlreadyConfirmed, w))"

text \<open>
  \<open>SendConfirmEmail\<close>. The function reads the clock up to three times: \<open>t_check\<close> is the
  reading compared with the marker (line 109), \<open>t_sent\<close> the reading stored in the
  marker (line 105 or 112), \<open>t_code\<close> the reading the expiration is computed from
  (line 136).
\<close>

definition SendConfirmEmail :: "env \<Rightarrow> world \<Rightarrow> string \<Rightarrow> nat list \<Rightarrow> int64 \<Rightarrow> int64 \<Rightarrow> int64 \<Rightarrow> error option \<times> world" where
  "SendConfirmEmail env w email rs t_check t_sent t_code =
     (case confirmEmailLastSent w email of
        None \<Rightarrow>
          issueConfirmEmailCode env
            (w\<lparr>confirmEmailLastSent := (confirmEmailLastSent w)(email \<mapsto> t_sent)\<rparr>)
            email rs t_code
      | Some lastSent \<Rightarrow>
          if t_check - lastSent <s confirmEmailTimeout then (Some ErrTimeout, w)
          else
            issueConfirmEmailCode env
              (w\<lparr>confirmEmailLastSent := (confirmEmailLastSent w)(email \<mapsto> t_sent)\<rparr>)
              email rs t_code)"

definition VerifyConfirmEmailCode :: "world \<Rightarrow> string \<Rightarrow> string \<Rightarrow> int64 \<Rightarrow> bool \<times> world" where
  "VerifyConfirmEmailCode w email code now =
     (case userByEmail w email of
        None \<Rightarrow> (False, w)
      | Some u \<Rightarrow>
          if email_code.Code (joinedEmailCode w u) = code then
            let unexpired = now <s email_code.ExpirationTime (joinedEmailCode w u);
                w1 = (if unexpired then updateUser (\<lambda>r. r\<lparr>EmailConfirmed := True\<rparr>) u w else w)
            in (unexpired, w1\<lparr>emailCodes := (emailCodes w1)(Id u := None)\<rparr>)
          else (False, w))"


text \<open>
  \<open>Activate2FAOTP\<close>. \<open>generate\<close> is what \<open>totp.Generate\<close> returns in this call for
  the issuer and the account name (\<open>None\<close> when it fails).
\<close>

definition Activate2FAOTP :: "env \<Rightarrow> world \<Rightarrow> string \<Rightarrow> string \<Rightarrow> (string \<Rightarrow> string \<Rightarrow> otp_key option) \<Rightarrow> (error + bytes) \<times> world" where
  "Activate2FAOTP env w email password generate =
     (case userByEmail w email of
        None \<Rightarrow> (Inl ErrInvalidCredentials, w)
      | Some u \<Rightarrow>
          if \<not> CompareHashAndPassword env (PasswordHash u) password
          then (Inl ErrInvalidCredentials, w)
          else if \<not> TwoFaOTPEnabled u then
            (case generate (DomainName env) (Email u) of
               None \<Rightarrow> (Inl (ErrorsNew ''Failed to generate OTP''), w)
             | Some key \<Rightarrow>
                 (case Image key of
                    None \<Rightarrow> (Inl (ErrorsNew ''Failed to generate OTP QR code''), w)
                  | Some qr \<Rightarrow>
                      (Inr qr,
                       updateUser (\<lambda>r. r\<lparr>TwoFaOTPEnabled := TwoFaOTPEnabled u,
                                          OtpSecret := Secret key,
                                          OtpQrCode := qr\<rparr>) u w)))
          else (Inr (OtpQrCode u), w))"

definition VerifyOTPCode :: "env \<Rightarrow> world \<Rightarrow> string \<Rightarrow> string \<Rightarrow> bool \<times> world" where
  "VerifyOTPCode env w email code =
     (case userByEmail w email of
        None \<Rightarrow> (False, w)
      | Some u \<Rightarrow>
          if Validate env code (OtpSecret u)
          then (True, updateUser (\<lambda>r. r\<lparr>TwoFaOTPEnabled := True\<rparr>) u w)
          else (False, w))"

text \<open>
  The loop of \<open>Login\<close> (lines 260 to 267): draw a 64-character code until it is not
  the code of a stored login token. Each round consumes 64 draws of the reader, so the
  loop ends when the reader does.
\<close>

function loginTokenCode :: "world \<Rightarrow> string \<Rightarrow> nat list \<Rightarrow> error + string" where
  "loginTokenCode w code rs =
     (if code = [] \<or> find (\<lambda>t. login_token.Code t = code) (loginTokens w) \<noteq> None then
        (case generateRandomString 64 rs of
           Inl e \<Rightarrow> Inl e
         | Inr (code', rs') \<Rightarrow> loginTokenCode w code' rs')
      else Inr code)"
  by pat_completeness auto
termination
proof (relation "measure (\<lambda>(w, code, rs). length rs)")
  show "wf (measure (\<lambda>(w, code, rs). length rs))" by simp
next
  fix w :: world and code :: string and rs :: "nat list" and x2 code' rs'
  assume g: "generateRandomString 64 rs = Inr x2" and x: "(code', rs') = x2"
  have len: "generateRandomString n ds = Inr (s, ds') \<Longrightarrow> length ds = n + length ds'"
    for n ds s ds'
    by (induction n ds arbitrary: s ds' rule: generateRandomString.induct)
       (auto split: sum.splits)
  from g x have "length rs = 64 + length rs'"
    using len [of 64 rs code' rs'] by simp
  then show "((w, code', rs'), (w, code, rs)) \<in> measure (\<lambda>(w, code, rs). length rs)"
    by simp
qed

declare loginTokenCode.simps [simp del]

definition Login :: "env \<Rightarrow> world \<Rightarrow> string \<Rightarrow> string \<Rightarrow> nat list \<Rightarrow> int64 \<Rightarrow> (error + string) \<times> world" where
  "Login env w email password rs now =
     (case userByEmail w email of
        None \<Rightarrow> (Inl ErrInvalidCredentials, w)
      | Some u \<Rightarrow>
          if \<not> CompareHashAndPassword env (PasswordHash u) password
          then (Inl ErrInvalidCredentials, w)
          else
            (case loginTokenCode w [] rs of
               Inl e \<Rightarrow> (Inl e, w)
             | Inr code \<Rightarrow>
                 (Inr code,
                  w\<lparr>loginTokens := loginTokens w @
                      [\<lparr>login_token.Code = code,
                        login_token.ExpirationTime = now + loginTokenLifetime,
                        login_token.UserId = Id u\<rparr>]\<rparr>)))"

section \<open>Handlers\<close>

text \<open>
  \<open>DeleteUser\<close> (\<open>/v1/user (DELETE)\<close>) works on the \<open>UserStore\<close> interface of
  \<open>models/user.go\<close>, whose tokens carry a hash of their code.
\<close>

record two_fa_token = base +
  CodeHash :: bytes
  ExpirationTime :: int64
  UserId :: uuid

record user_store =
  userRows :: "user list"
  twoFATokens :: "two_fa_token list"

text \<open>\<open>bindings.DeleteUser\<close>: the fields the handler reads.\<close>

record delete_user_body =
  Password :: string
  TwoFAToken :: string

datatype body =
    UnexpectedError
  | UserNoLongerExists
  | InvalidRequestBody
  | InvalidCredentials
  | Message bool string

type_synonym response = "nat \<times> body"

text \<open>
  Modelled from the spec: the implementation of \<open>UserStore\<close> is missing (the interface
  is declared in \<open>models/user.go\<close>). \<open>GetById\<close> finds the user row with the id.
\<close>

definition GetById :: "user_store \<Rightarrow> uuid \<Rightarrow> user option" where
  "GetById s uid = find (\<lambda>u. Id u = uid) (userRows s)"

text \<open>
  Modelled from the spec: the implementation of \<open>GetTwoFATokenByCode\<close> is missing.
  "Token lookup always compares by hash, never plaintext": the token of this user whose
  stored hash is the hash of the presented code.
\<close>

definition GetTwoFATokenByCode :: "env \<Rightarrow> user_store \<Rightarrow> user \<Rightarrow> string \<Rightarrow> two_fa_token option" where
  "GetTwoFATokenByCode env s u code =
     find (\<lambda>t. two_fa_token.UserId t = Id u \<and> CodeHash t = HashToken env code) (twoFATokens s)"

text \<open>
  Modelled from the spec: the implementation of \<open>DeleteTwoFAToken\<close> is missing. The
  row with the token's primary key is removed.
\<close>

definition DeleteTwoFAToken :: "user_store \<Rightarrow> two_fa_token \<Rightarrow> user_store" where
  "DeleteTwoFAToken s t = s\<lparr>twoFATokens := filter (\<lambda>r. Id r \<noteq> Id t) (twoFATokens s)\<rparr>"

text \<open>
  Modelled from the spec: the implementation of \<open>Delete\<close> is missing. The user's row
  is removed, and with it the tokens that belong to the user.
\<close>

definition Delete :: "user_store \<Rightarrow> user \<Rightarrow> user_store" where
  "Delete s u = s\<lparr>userRows := filter (\<lambda>r. Id r \<noteq> Id u) (userRows s),
                  twoFATokens := filter (\<lambda>t. two_fa_token.UserId t \<noteq> Id u) (twoFATokens s)\<rparr>"

text \<open>
  \<open>DeleteUser\<close>: \<open>userId\<close> is the authenticated user of the request context,
  \<open>reqBody\<close> the bound request body (\<open>None\<close> when \<open>c.Bind\<close> fails), \<open>now\<close> the reading
  of \<open>time.Now().Unix()\<close>.
\<close>

definition DeleteUser :: "env \<Rightarrow> user_store \<Rightarrow> uuid \<Rightarrow> delete_user_body option \<Rightarrow> int64 \<Rightarrow> response \<times> user_store" where
  "DeleteUser env s userId reqBody now =
     (case GetById s userId of
        None \<Rightarrow> ((401, UserNoLongerExists), s)
      | Some u \<Rightarrow>
          (case reqBody of
             None \<Rightarrow> ((400, InvalidRequestBody), s)
           | Some b \<Rightarrow>
               if \<not> CompareHashAndPassword env (PasswordHash u) (Password b)
               then ((403, InvalidCredentials), s)
               else
                 (case GetTwoFATokenByCode env s u (TwoFAToken b) of
                    None \<Rightarrow> ((403, InvalidCredentials), s)
                  | Some t \<Rightarrow>
                      if two_fa_token.ExpirationTime t <s now
                      then ((403, InvalidCredentials), DeleteTwoFAToken s t)
                      else ((200, Message True ''Successfully deleted account''),
                            Delete (DeleteTwoFAToken s t) u))))"

section \<open>Group store\<close>

record group = base +
  Name :: string
  Description :: string
  GroupPicture :: bytes
  GroupPictureId :: uuid

record group_membership = base +
  GroupName :: string
  GroupId :: uuid
  UserName :: string
  UserId :: uuid
  IsMember :: bool
  IsAdmin :: bool

record transaction_log_entry = base +
  Title :: string
  Description :: string
  Amount :: go_int
  GroupId :: uuid
  SenderIsBank :: bool
  SenderId :: uuid
  NewBalanceSender :: go_int
  BalanceDifferenceSender :: go_int
  ReceiverIsBank :: bool
  ReceiverId :: uuid
  NewBalanceReceiver :: go_int
  BalanceDifferenceReceiver :: go_int
  PaymentPlanId :: uuid

record payment_plan = base +
  Name :: string
  Description :: string
  Amount :: go_int
  PaymentCount :: go_int
  NextExecute :: int64
  Schedule :: go_int
  ScheduleUnit :: string
  SenderIsBank :: bool
  SenderId :: uuid
  ReceiverIsBank :: bool
  ReceiverId :: uuid
  GroupId :: uuid

text \<open>
  The tables behind \<open>GroupStore\<close>. The rows of \<open>transactionLog\<close> are kept in the order
  of their \<open>created\<close> column, oldest first: \<open>Create\<close> appends.
\<close>

record group_store =
  memberships :: "group_membership list"
  transactionLog :: "transaction_log_entry list"
  paymentPlans :: "payment_plan list"

definition RemoveMember :: "group_store \<Rightarrow> group \<Rightarrow> user \<Rightarrow> error option \<times> group_store" where
  "RemoveMember gs g u =
     (case find (\<lambda>m. group_membership.GroupId m = Id g \<and> group_membership.UserId m = Id u)
             (memberships gs) of
        None \<Rightarrow> (Some ErrRecordNotFound, gs)
      | Some membership \<Rightarrow>
          let gs1 = gs\<lparr>paymentPlans :=
                      filter (\<lambda>p. \<not> ((payment_plan.GroupId p = Id g \<and> payment_plan.SenderId p = Id u)
                                    \<or> (payment_plan.GroupId p = Id g \<and> payment_plan.ReceiverId p = Id u)))
                        (paymentPlans gs)\<rparr>
          in if group_membership.IsAdmin membership then
               (None, gs1\<lparr>memberships :=
                        map (\<lambda>r. if Id r = Id membership then r\<lparr>IsMember := False\<rparr> else r)
                          (memberships gs1)\<rparr>)
             else
               (None, gs1\<lparr>memberships :=
                        filter (\<lambda>r. Id r \<noteq> Id membership) (memberships gs1)\<rparr>))"

definition IsAdmin :: "group_store \<Rightarrow> group \<Rightarrow> user \<Rightarrow> bool" where
  "IsAdmin gs g u =
     (find (\<lambda>m. group_membership.GroupId m = Id g \<and> group_membership.UserId m = Id u
                \<and> group_membership.IsAdmin m = True) (memberships gs) \<noteq> None)"

text \<open>
  The condition of \<open>GetLastTransactionLogEntry\<close>:
  \<open>Where("group_id = ? AND sender_id = ?", ...).Or("group_id = ? AND receiver_id = ?", ...)\<close>.
\<close>

definition logEntryOf :: "group \<Rightarrow> user \<Rightarrow> transaction_log_entry \<Rightarrow> bool" where
  "logEntryOf g u e =
     ((transaction_log_entry.GroupId e = Id g \<and> transaction_log_entry.SenderId e = Id u)
      \<or> (transaction_log_entry.GroupId e = Id g \<and> transaction_log_entry.ReceiverId e = Id u))"

text \<open>\<open>Order("created DESC") ... First(&entry)\<close>: the newest matching row.\<close>

definition GetLastTransactionLogEntry :: "group_store \<Rightarrow> group \<Rightarrow> user \<Rightarrow> transaction_log_entry option" where
  "GetLastTransactionLogEntry gs g u = find (logEntryOf g u) (rev (transactionLog gs))"

definition GetUserBalance :: "group_store \<Rightarrow> group \<Rightarrow> user \<Rightarrow> go_int" where
  "GetUserBalance gs g u =
     (case GetLastTransactionLogEntry gs g u of
        None \<Rightarrow> 0
      | Some lastLogEntry \<Rightarrow>
          if transaction_log_entry.SenderId lastLogEntry = Id u
          then NewBalanceSender lastLogEntry
          else NewBalanceReceiver lastLogEntry)"

text \<open>
  \<open>CreateTransactionFromPaymentPlan\<close>. \<open>sender\<close> and \<open>receiver\<close> are pointers: \<open>None\<close>
  is \<open>nil\<close>, and reading through it panics. \<open>newId\<close> is the primary key the store
  gives the new row.
\<close>

definition CreateTransactionFromPaymentPlan ::
  "group_store \<Rightarrow> uuid \<Rightarrow> group \<Rightarrow> bool \<Rightarrow> bool \<Rightarrow> user option \<Rightarrow> user option \<Rightarrow> string \<Rightarrow> string
     \<Rightarrow> go_int \<Rightarrow> uuid \<Rightarrow> error + group_store" where
  "CreateTransactionFromPaymentPlan gs newId g senderIsBank receiverIsBank sender receiver
       title description amount paymentPlanId =
     (if (\<not> senderIsBank \<and> sender = None) \<or> (\<not> receiverIsBank \<and> receiver = None)
      then Inl NilDereference
      else
        let newBalanceSender =
              (if \<not> senderIsBank then GetUserBalance gs g (the sender) - amount else 0);
            newBalanceReceiver =
              (if \<not> receiverIsBank then GetUserBalance gs g (the receiver) + amount else 0);
            senderId = (if \<not> senderIsBank then Id (the sender) else 0);
            receiverId = (if \<not> receiverIsBank then Id (the receiver) else 0);
            transaction =
              \<lparr>Id = newId,
               Title = title,
               transaction_log_entry.Description = description,
               transaction_log_entry.Amount = amount,
               transaction_log_entry.GroupId = Id g,
               transaction_log_entry.SenderIsBank = senderIsBank,
               transaction_log_entry.SenderId = senderId,
               NewBalanceSender = newBalanceSender,
               BalanceDifferenceSender = - amount,
               transaction_log_entry.ReceiverIsBank = receiverIsBank,
               transaction_log_entry.ReceiverId = receiverId,
               NewBalanceReceiver = newBalanceReceiver,
               BalanceDifferenceReceiver = amount,
               PaymentPlanId = paymentPlanId\<rparr>
        in Inr (gs\<lparr>transactionLog := transactionLog gs @ [transaction]\<rparr>))"

definition CreateTransaction ::
  "group_store \<Rightarrow> uuid \<Rightarrow> group \<Rightarrow> bool \<Rightarrow> bool \<Rightarrow> user option \<Rightarrow> user option \<Rightarrow> string \<Rightarrow> string
     \<Rightarrow> go_int \<Rightarrow> error + group_store" where
  "CreateTransaction gs newId g senderIsBank receiverIsBank sender receiver title description amount =
     CreateTransactionFromPaymentPlan gs newId g senderIsBank receiverIsBank sender receiver
       title description amount 0"

section \<open>Example stores\<close>

text \<open>Concrete values on which the theorems below are exercised.\<close>

definition env0 :: env where
  "env0 = \<lparr>EmailEnabled = True,
           DomainName = ''hbank.example'',
           CompareHashAndPassword = (\<lambda>h p. h = [1, 2, 3] \<and> p = ''pw1''),
           Validate = (\<lambda>c s. c = ''123456'' \<and> s = ''JBSWY3DPEHPK3PXP''),
           ParseEmailTemplate = (\<lambda>t n c. Some (n @ '', '' @ c)),
           HashToken = (\<lambda>c. [of_nat (length c), 7])\<rparr>"

definition ann :: user where
  "ann = \<lparr>Id = 1, user.Name = ''Ann'', Email = ''a@x.com'', PasswordHash = [1, 2, 3],
          ProfilePicture = [], ProfilePictureId = 7, EmailConfirmed = False,
          TwoFaOTPEnabled = False, OtpSecret = [], OtpQrCode = []\<rparr>"

definition world0 :: world where
  "world0 = \<lparr>users = [ann], confirmEmailLastSent = Map.empty, emailCodes = Map.empty,
             loginTokens = [], outbox = []\<rparr>"

definition code0 :: email_code where
  "code0 = \<lparr>email_code.Code = ''ABC123'', email_code.ExpirationTime = 5000\<rparr>"

definition world1 :: world where
  "world1 = world0\<lparr>emailCodes := [1 \<mapsto> code0]\<rparr>"

definition key0 :: otp_key where
  "key0 = \<lparr>Secret = ''JBSWY3DPEHPK3PXP'', Image = Some [137, 80, 78, 71]\<rparr>"

definition ann2 :: user where
  "ann2 = ann\<lparr>EmailConfirmed := True, TwoFaOTPEnabled := True,
              OtpSecret := ''JBSWY3DPEHPK3PXP'', OtpQrCode := [137, 80, 78, 71]\<rparr>"

definition world2 :: world where
  "world2 = world0\<lparr>users := [ann2]\<rparr>"

definition token0 :: two_fa_token where
  "token0 = \<lparr>Id = 9, CodeHash = [3, 7], two_fa_token.ExpirationTime = 100,
             two_fa_token.UserId = 1\<rparr>"

definition store0 :: user_store where
  "store0 = \<lparr>userRows = [ann], twoFATokens = [token0]\<rparr>"

definition body0 :: delete_user_body where
  "body0 = \<lparr>Password = ''pw1'', TwoFAToken = ''tok''\<rparr>"

definition bob :: user where
  "bob = \<lparr>Id = 2, user.Name = ''Bob'', Email = ''b@x.com'', PasswordHash = [4, 5, 6],
          ProfilePicture = [], ProfilePictureId = 8, EmailConfirmed = True,
          TwoFaOTPEnabled = False, OtpSecret = [], OtpQrCode = []\<rparr>"

definition group0 :: group where
  "group0 = \<lparr>Id = 5, group.Name = ''Family'', group.Description = [], GroupPicture = [],
             GroupPictureId = 6\<rparr>"

definition entry0 :: transaction_log_entry where
  "entry0 = \<lparr>Id = 20, Title = ''Allowance'', transaction_log_entry.Description = [],
             transaction_log_entry.Amount = 100, transaction_log_entry.GroupId = 5,
             transaction_log_entry.SenderIsBank = True, transaction_log_entry.SenderId = 0,
             NewBalanceSender = 0, BalanceDifferenceSender = - 100,
             transaction_log_entry.ReceiverIsBank = False, transaction_log_entry.ReceiverId = 1,
             NewBalanceReceiver = 100, BalanceDifferenceReceiver = 100, PaymentPlanId = 0\<rparr>"

definition memberAnn :: group_membership where
  "memberAnn = \<lparr>Id = 30, GroupName = ''Family'', group_membership.GroupId = 5, UserName = ''Ann'',
                group_membership.UserId = 1, IsMember = True, group_membership.IsAdmin = True\<rparr>"

definition memberBob :: group_membership where
  "memberBob = \<lparr>Id = 31, GroupName = ''Family'', group_membership.GroupId = 5, UserName = ''Bob'',
                group_membership.UserId = 2, IsMember = True, group_membership.IsAdmin = False\<rparr>"

definition groups0 :: group_store where
  "groups0 = \<lparr>memberships = [memberAnn, memberBob], transactionLog = [entry0],
              paymentPlans = []\<rparr>"

section \<open>Email verification\<close>

lemma find_map_preserved:
  assumes "\<And>r. P (f r) = P r"
  shows "find P (map f rs) = map_option f (find P rs)"
  using assms by (induction rs) simp_all

lemma userByEmail_updateUser:
  assumes "\<And>r. Email (cols r) = Email r"
  shows "userByEmail (updateUser cols u w) email =
         map_option (\<lambda>r. if Id r = Id u then cols r else r) (userByEmail w email)"
  unfolding userByEmail_def updateUser_def
  by (simp add: find_map_preserved assms)

text \<open>
  C1. For a user with an outstanding confirmation code, \<open>VerifyConfirmEmailCode\<close> does
  one of three things. When the presented code equals the stored one and the code is
  unexpired, it returns success, the user's row is confirmed and the code is deleted.
  When the code matches but is expired, it returns failure and deletes the code, and
  no user row changes. When the code does not match, it returns failure and the store,
  the code included, stays as it was.
\<close>

theorem C1_verifyCode_three_ways:
  assumes "userByEmail w email = Some u"
    and "emailCodes w (Id u) = Some ec"
  shows "(email_code.Code ec = code \<and> now <s email_code.ExpirationTime ec \<longrightarrow>
            VerifyConfirmEmailCode w email code now =
              (True, w\<lparr>users := map (\<lambda>r. if Id r = Id u then r\<lparr>EmailConfirmed := True\<rparr> else r) (users w),
                        emailCodes := (emailCodes w)(Id u := None)\<rparr>)
            \<and> userByEmail (snd (VerifyConfirmEmailCode w email code now)) email
                = Some (u\<lparr>EmailConfirmed := True\<rparr>)
            \<and> emailCodes (snd (VerifyConfirmEmailCode w email code now)) (Id u) = None)
       \<and> (email_code.Code ec = code \<and> \<not> now <s email_code.ExpirationTime ec \<longrightarrow>
            VerifyConfirmEmailCode w email code now =
              (False, w\<lparr>emailCodes := (emailCodes w)(Id u := None)\<rparr>))
       \<and> (email_code.Code ec \<noteq> code \<longrightarrow>
            VerifyConfirmEmailCode w email code now = (False, w)
            \<and> emailCodes (snd (VerifyConfirmEmailCode w email code now)) (Id u) = Some ec)"
  using assms
  by (simp add: VerifyConfirmEmailCode_def joinedEmailCode_def Let_def
        updateUser_def userByEmail_def find_map_preserved)

theorem C1_verifyCode_three_ways_witness:
  "userByEmail world1 ''a@x.com'' = Some ann \<and> emailCodes world1 (Id ann) = Some code0
   \<and> VerifyConfirmEmailCode world1 ''a@x.com'' ''ABC123'' 1000
       = (True, world0\<lparr>users := [ann\<lparr>EmailConfirmed := True\<rparr>]\<rparr>)
   \<and> VerifyConfirmEmailCode world1 ''a@x.com'' ''ABC123'' 5000 = (False, world0)
   \<and> VerifyConfirmEmailCode world1 ''a@x.com'' ''XYZ789'' 1000 = (False, world1)"
proof -
  have u: "userByEmail world1 ''a@x.com'' = Some ann"
    by (simp add: userByEmail_def world1_def world0_def ann_def)
  have c: "emailCodes world1 (Id ann) = Some code0"
    by (simp add: world1_def world0_def ann_def)
  have x: "email_code.Code code0 = ''ABC123''" "(1000 :: int64) <s email_code.ExpirationTime code0"
     "\<not> (5000 :: int64) <s email_code.ExpirationTime code0" "email_code.Code code0 \<noteq> ''XYZ789''"
    by (simp_all add: code0_def word_sless_alt)
  show ?thesis
    using u c x C1_verifyCode_three_ways [OF u c, of "''ABC123''" 1000]
      C1_verifyCode_three_ways [OF u c, of "''ABC123''" 5000]
      C1_verifyCode_three_ways [OF u c, of "''XYZ789''" 1000]
    by (simp add: world1_def world0_def ann_def)
qed

section \<open>Login and two-factor activation\<close>

lemma userByEmail_updateUser_found:
  assumes "userByEmail w email = Some u"
    and "\<And>r. Email (cols r) = Email r"
  shows "userByEmail (updateUser cols u' w) email = Some (if Id u = Id u' then cols u else u)"
  using assms by (simp add: userByEmail_updateUser)

text \<open>
  C4. \<open>Login\<close> returns the same error, \<open>ErrInvalidCredentials\<close>, with no token and with
  the store untouched, when no user has the email and when the user exists but the
  password does not verify against the stored hash.
\<close>

theorem C4_login_invalid_credentials:
  assumes "userByEmail w email = None
           \<or> (\<exists>u. userByEmail w email = Some u
                  \<and> \<not> CompareHashAndPassword env (PasswordHash u) password)"
  shows "Login env w email password rs now = (Inl ErrInvalidCredentials, w)"
  using assms by (auto simp: Login_def)

theorem C4_login_invalid_credentials_witness:
  "userByEmail world0 ''nobody@x.com'' = None
   \<and> userByEmail world0 ''a@x.com'' = Some ann
   \<and> \<not> CompareHashAndPassword env0 (PasswordHash ann) ''wrong''
   \<and> Login env0 world0 ''nobody@x.com'' ''pw1'' [] 1000 = (Inl ErrInvalidCredentials, world0)
   \<and> Login env0 world0 ''a@x.com'' ''wrong'' [] 1000 = (Inl ErrInvalidCredentials, world0)"
proof -
  have n: "userByEmail world0 ''nobody@x.com'' = None"
    by (simp add: userByEmail_def world0_def ann_def)
  have u: "userByEmail world0 ''a@x.com'' = Some ann"
    by (simp add: userByEmail_def world0_def ann_def)
  have p: "\<not> CompareHashAndPassword env0 (PasswordHash ann) ''wrong''"
    by (simp add: env0_def)
  show ?thesis
    using n u p
      C4_login_invalid_credentials [of world0 "''nobody@x.com''" env0 "''pw1''" "[]" 1000]
      C4_login_invalid_credentials [of world0 "''a@x.com''" env0 "''wrong''" "[]" 1000]
    by simp
qed

text \<open>
  C8. For a user whose two-factor flag is set, \<open>Activate2FAOTP\<close> with the correct
  password returns the stored QR image and leaves the store as it was: no key is
  generated (the result does not depend on \<open>generate\<close>), and a second call returns the
  same image. With a password that does not verify it fails with
  \<open>ErrInvalidCredentials\<close>, whatever the flag.
\<close>

theorem C8_activateOTP_idempotent:
  assumes "userByEmail w email = Some u"
  shows "(TwoFaOTPEnabled u \<and> CompareHashAndPassword env (PasswordHash u) password \<longrightarrow>
            Activate2FAOTP env w email password generate = (Inr (OtpQrCode u), w)
            \<and> Activate2FAOTP env (snd (Activate2FAOTP env w email password generate))
                email password generate' = (Inr (OtpQrCode u), w))
       \<and> (\<not> CompareHashAndPassword env (PasswordHash u) password \<longrightarrow>
            Activate2FAOTP env w email password generate = (Inl ErrInvalidCredentials, w))"
  using assms by (simp add: Activate2FAOTP_def)

theorem C8_activateOTP_idempotent_witness:
  "userByEmail world2 ''a@x.com'' = Some ann2
   \<and> TwoFaOTPEnabled ann2 \<and> CompareHashAndPassword env0 (PasswordHash ann2) ''pw1''
   \<and> Activate2FAOTP env0 world2 ''a@x.com'' ''pw1'' (\<lambda>i a. Some key0)
       = (Inr [137, 80, 78, 71], world2)
   \<and> Activate2FAOTP env0 (snd (Activate2FAOTP env0 world2 ''a@x.com'' ''pw1'' (\<lambda>i a. Some key0)))
       ''a@x.com'' ''pw1'' (\<lambda>i a. None) = (Inr [137, 80, 78, 71], world2)
   \<and> \<not> CompareHashAndPassword env0 (PasswordHash ann2) ''wrong''
   \<and> Activate2FAOTP env0 world2 ''a@x.com'' ''wrong'' (\<lambda>i a. Some key0)
       = (Inl ErrInvalidCredentials, world2)"
proof -
  have u: "userByEmail world2 ''a@x.com'' = Some ann2"
    by (simp add: userByEmail_def world2_def world0_def ann2_def ann_def)
  have p: "TwoFaOTPEnabled ann2" "CompareHashAndPassword env0 (PasswordHash ann2) ''pw1''"
    "\<not> CompareHashAndPassword env0 (PasswordHash ann2) ''wrong''"
    "OtpQrCode ann2 = [137, 80, 78, 71]"
    by (simp_all add: env0_def ann2_def ann_def)
  have r1: "Activate2FAOTP env0 world2 ''a@x.com'' ''pw1'' (\<lambda>i a. Some key0)
              = (Inr (OtpQrCode ann2), world2)"
    and r2: "Activate2FAOTP env0 (snd (Activate2FAOTP env0 world2 ''a@x.com'' ''pw1'' (\<lambda>i a. Some key0)))
              ''a@x.com'' ''pw1'' (\<lambda>i a. None) = (Inr (OtpQrCode ann2), world2)"
    using p C8_activateOTP_idempotent [OF u, of env0 "''pw1''" "\<lambda>i a. Some key0" "\<lambda>i a. None"]
    by blast+
  have r3: "Activate2FAOTP env0 world2 ''a@x.com'' ''wrong'' (\<lambda>i a. Some key0)
              = (Inl ErrInvalidCredentials, world2)"
    using p C8_activateOTP_idempotent [OF u, of env0 "''wrong''" "\<lambda>i a. Some key0" "\<lambda>i a. None"]
    by blast
  have r2': "Activate2FAOTP env0 world2 ''a@x.com'' ''pw1'' (\<lambda>i a. None)
               = (Inr (OtpQrCode ann2), world2)"
    using r2 unfolding r1 by simp
  show ?thesis
    using u p r1 r2' r3 by simp
qed

text \<open>
  C3, as the spec states it: requesting activation persists no OTP secret while the
  two-factor flag is false. It fails: after \<open>Activate2FAOTP\<close> for a user who has not
  enabled two-factor authentication, the user's row holds the generated secret and the
  flag is still false.
\<close>

theorem C3_secret_persisted_counterexample:
  "fst (Activate2FAOTP env0 world0 ''a@x.com'' ''pw1'' (\<lambda>i a. Some key0))
     = Inr [137, 80, 78, 71]
   \<and> map OtpSecret (users (snd (Activate2FAOTP env0 world0 ''a@x.com'' ''pw1'' (\<lambda>i a. Some key0))))
       = [''JBSWY3DPEHPK3PXP'']
   \<and> map TwoFaOTPEnabled (users (snd (Activate2FAOTP env0 world0 ''a@x.com'' ''pw1'' (\<lambda>i a. Some key0))))
       = [False]"
  by (simp add: Activate2FAOTP_def userByEmail_def updateUser_def world0_def ann_def env0_def
        key0_def)

text \<open>
  C3, amended. For a user whose two-factor flag is false, \<open>Activate2FAOTP\<close> with the
  correct password, when the key and its image are generated, returns the image and
  persists the generated secret and image on the user's row, the flag staying false.
  The flag is set by \<open>VerifyOTPCode\<close>, and only when the presented code validates
  against that stored secret; a code that does not validate changes nothing.
\<close>

theorem C3_secret_persisted_flag_on_verify:
  assumes "userByEmail w email = Some u"
    and "\<not> TwoFaOTPEnabled u"
    and "CompareHashAndPassword env (PasswordHash u) password"
    and "generate (DomainName env) (Email u) = Some key"
    and "Image key = Some qr"
  shows "fst (Activate2FAOTP env w email password generate) = Inr qr
       \<and> userByEmail (snd (Activate2FAOTP env w email password generate)) email
           = Some (u\<lparr>OtpSecret := Secret key, OtpQrCode := qr\<rparr>)
       \<and> (Validate env code (Secret key) \<longrightarrow>
            fst (VerifyOTPCode env (snd (Activate2FAOTP env w email password generate)) email code)
            \<and> userByEmail
                (snd (VerifyOTPCode env (snd (Activate2FAOTP env w email password generate)) email code))
                email
                = Some (u\<lparr>TwoFaOTPEnabled := True, OtpSecret := Secret key, OtpQrCode := qr\<rparr>))
       \<and> (\<not> Validate env code (Secret key) \<longrightarrow>
            VerifyOTPCode env (snd (Activate2FAOTP env w email password generate)) email code
              = (False, snd (Activate2FAOTP env w email password generate)))"
proof -
  let ?w1 = "updateUser (\<lambda>r. r\<lparr>TwoFaOTPEnabled := TwoFaOTPEnabled u, OtpSecret := Secret key,
                                 OtpQrCode := qr\<rparr>) u w"
  let ?u1 = "u\<lparr>OtpSecret := Secret key, OtpQrCode := qr\<rparr>"
  have act: "Activate2FAOTP env w email password generate = (Inr qr, ?w1)"
    using assms by (simp add: Activate2FAOTP_def)
  have u1: "userByEmail ?w1 email = Some ?u1"
    using userByEmail_updateUser_found [OF assms(1), of _ u] assms(2) by simp
  have ok: "userByEmail (updateUser (\<lambda>r. r\<lparr>TwoFaOTPEnabled := True\<rparr>) ?u1 ?w1) email
              = Some (?u1\<lparr>TwoFaOTPEnabled := True\<rparr>)"
    using userByEmail_updateUser_found [OF u1, of "\<lambda>r. r\<lparr>TwoFaOTPEnabled := True\<rparr>" ?u1]
    by simp
  show ?thesis
    using act u1 ok by (simp add: VerifyOTPCode_def)
qed

theorem C3_secret_persisted_flag_on_verify_witness:
  "userByEmail world0 ''a@x.com'' = Some ann \<and> \<not> TwoFaOTPEnabled ann
   \<and> CompareHashAndPassword env0 (PasswordHash ann) ''pw1''
   \<and> Image key0 = Some [137, 80, 78, 71]
   \<and> Validate env0 ''123456'' (Secret key0) \<and> \<not> Validate env0 ''000000'' (Secret key0)
   \<and> userByEmail (snd (Activate2FAOTP env0 world0 ''a@x.com'' ''pw1'' (\<lambda>i a. Some key0))) ''a@x.com''
       = Some (ann\<lparr>OtpSecret := ''JBSWY3DPEHPK3PXP'', OtpQrCode := [137, 80, 78, 71]\<rparr>)
   \<and> fst (VerifyOTPCode env0 (snd (Activate2FAOTP env0 world0 ''a@x.com'' ''pw1'' (\<lambda>i a. Some key0)))
            ''a@x.com'' ''123456'')
   \<and> \<not> fst (VerifyOTPCode env0 (snd (Activate2FAOTP env0 world0 ''a@x.com'' ''pw1'' (\<lambda>i a. Some key0)))
            ''a@x.com'' ''000000'')"
proof -
  have u: "userByEmail world0 ''a@x.com'' = Some ann"
    by (simp add: userByEmail_def world0_def ann_def)
  have f: "\<not> TwoFaOTPEnabled ann" by (simp add: ann_def)
  have p: "CompareHashAndPassword env0 (PasswordHash ann) ''pw1''"
    by (simp add: env0_def ann_def)
  have g: "(\<lambda>i a. Some key0) (DomainName env0) (Email ann) = Some key0" by simp
  have i: "Image key0 = Some [137, 80, 78, 71]" by (simp add: key0_def)
  have v: "Validate env0 ''123456'' (Secret key0)" "\<not> Validate env0 ''000000'' (Secret key0)"
    "Secret key0 = ''JBSWY3DPEHPK3PXP''"
    by (simp_all add: env0_def key0_def)
  show ?thesis
    using u f p i v
      C3_secret_persisted_flag_on_verify [OF u f p g i, of "''123456''"]
      C3_secret_persisted_flag_on_verify [OF u f p g i, of "''000000''"]
    by simp
qed

section \<open>Rate limit of the confirmation mail\<close>

lemma generateRandomString_eq:
  "generateRandomString n rs =
     (if n \<le> length rs
      then Inr (map (\<lambda>r. letters ! (r mod length letters)) (take n rs), drop n rs)
      else Inl ErrRandRead)"
  by (induction n rs rule: generateRandomString.induct) simp_all

lemma issueConfirmEmailCode_not_timeout:
  "fst (issueConfirmEmailCode env w email rs t) \<noteq> Some ErrTimeout"
  by (simp add: issueConfirmEmailCode_def generateRandomString_eq Let_def
        split: option.splits)

lemma issueConfirmEmailCode_marker:
  "confirmEmailLastSent (snd (issueConfirmEmailCode env w email rs t)) = confirmEmailLastSent w"
  by (simp add: issueConfirmEmailCode_def generateRandomString_eq Let_def
        split: option.splits)

text \<open>Between two readings of the clock after the epoch the subtraction does not wrap.\<close>

lemma elapsed_sless:
  fixes a b c :: int64
  assumes "0 \<le>s a" and "0 \<le>s b"
  shows "(b - a <s c) \<longleftrightarrow> (sint b - sint a < sint c)"
proof -
  have a: "0 \<le> sint a" "sint a < 2 ^ 63"
    using assms(1) sint_lt [of a] by (simp_all add: word_sle_eq)
  have b: "0 \<le> sint b" "sint b < 2 ^ 63"
    using assms(2) sint_lt [of b] by (simp_all add: word_sle_eq)
  have "sint (b - a) = signed_take_bit 63 (sint b - sint a)"
    by (simp add: sint_word_ariths)
  also have "\<dots> = sint b - sint a"
    using a b by (intro signed_take_bit_int_eq_self) simp_all
  finally show ?thesis
    by (simp add: word_sless_alt)
qed

lemma SendConfirmEmail_limited:
  assumes "confirmEmailLastSent w email = Some l" and "0 \<le>s l" and "0 \<le>s t_check"
    and "sint t_check - sint l < 120000"
  shows "SendConfirmEmail env w email rs t_check t_sent t_code = (Some ErrTimeout, w)"
  using assms by (simp add: SendConfirmEmail_def elapsed_sless confirmEmailTimeout_def)

lemma SendConfirmEmail_passed:
  assumes "fst (SendConfirmEmail env w email rs t_check t_sent t_code) \<noteq> Some ErrTimeout"
  shows "SendConfirmEmail env w email rs t_check t_sent t_code =
           issueConfirmEmailCode env
             (w\<lparr>confirmEmailLastSent := (confirmEmailLastSent w)(email \<mapsto> t_sent)\<rparr>) email rs t_code"
  using assms by (simp add: SendConfirmEmail_def split: option.splits if_splits)

lemma SendConfirmEmail_elapsed:
  assumes "confirmEmailLastSent w email = Some l" and "0 \<le>s l" and "0 \<le>s t_check"
    and "120000 \<le> sint t_check - sint l"
  shows "SendConfirmEmail env w email rs t_check t_sent t_code =
           issueConfirmEmailCode env
             (w\<lparr>confirmEmailLastSent := (confirmEmailLastSent w)(email \<mapsto> t_sent)\<rparr>) email rs t_code"
  using assms by (simp add: SendConfirmEmail_def elapsed_sless confirmEmailTimeout_def)

text \<open>
  C6. Let a request for the email have passed the rate limit, writing the marker at the
  clock reading \<open>t_sent_a\<close>. A second request whose clock reading \<open>t_check\<close> is strictly
  less than 120000 ms (2 minutes) after it fails with \<open>ErrTimeout\<close> and leaves the whole
  store, codes and dispatched mails included, untouched. Once 120000 ms or more have
  elapsed, the second request is not answered with \<open>ErrTimeout\<close> and advances the
  marker. The readings are Unix milliseconds after the epoch.
\<close>

theorem C6_rate_limit_two_minutes:
  assumes "SendConfirmEmail env w email rs_a t_check_a t_sent_a t_code_a = (r1, w1)"
    and "r1 \<noteq> Some ErrTimeout"
    and "0 \<le>s t_sent_a" and "0 \<le>s t_check"
  shows "(sint t_check - sint t_sent_a < 120000 \<longrightarrow>
            SendConfirmEmail env w1 email rs t_check t_sent t_code = (Some ErrTimeout, w1))
       \<and> (120000 \<le> sint t_check - sint t_sent_a \<longrightarrow>
            fst (SendConfirmEmail env w1 email rs t_check t_sent t_code) \<noteq> Some ErrTimeout
            \<and> confirmEmailLastSent (snd (SendConfirmEmail env w1 email rs t_check t_sent t_code)) email
                = Some t_sent)"
proof -
  have "fst (SendConfirmEmail env w email rs_a t_check_a t_sent_a t_code_a) \<noteq> Some ErrTimeout"
    using assms(1,2) by simp
  from SendConfirmEmail_passed [OF this] assms(1) [symmetric]
  have "w1 = snd (issueConfirmEmailCode env
                (w\<lparr>confirmEmailLastSent := (confirmEmailLastSent w)(email \<mapsto> t_sent_a)\<rparr>)
                email rs_a t_code_a)"
    by (metis snd_conv)
  then have m: "confirmEmailLastSent w1 email = Some t_sent_a"
    by (simp add: issueConfirmEmailCode_marker)
  show ?thesis
  proof (intro conjI impI)
    assume "sint t_check - sint t_sent_a < 120000"
    then show "SendConfirmEmail env w1 email rs t_check t_sent t_code = (Some ErrTimeout, w1)"
      using m assms(3,4) by (rule_tac SendConfirmEmail_limited)
  next
    assume e: "120000 \<le> sint t_check - sint t_sent_a"
    note eq = SendConfirmEmail_elapsed [OF m assms(3,4) e, of env rs t_sent t_code]
    show "fst (SendConfirmEmail env w1 email rs t_check t_sent t_code) \<noteq> Some ErrTimeout"
      unfolding eq by (rule issueConfirmEmailCode_not_timeout)
    show "confirmEmailLastSent (snd (SendConfirmEmail env w1 email rs t_check t_sent t_code)) email
            = Some t_sent"
      unfolding eq by (simp add: issueConfirmEmailCode_marker)
  qed
qed


theorem C6_rate_limit_two_minutes_witness:
  "fst (SendConfirmEmail env0 world0 ''a@x.com'' [0, 1, 2, 3, 4, 5] 1000 1000 1000) = None
   \<and> (0 :: int64) \<le>s 1000 \<and> (0 :: int64) \<le>s 120999 \<and> (0 :: int64) \<le>s 121000
   \<and> sint (120999 :: int64) - sint (1000 :: int64) < 120000
   \<and> SendConfirmEmail env0
         (snd (SendConfirmEmail env0 world0 ''a@x.com'' [0, 1, 2, 3, 4, 5] 1000 1000 1000))
         ''a@x.com'' [6, 7, 8, 9, 10, 11] 120999 120999 120999
       = (Some ErrTimeout,
          snd (SendConfirmEmail env0 world0 ''a@x.com'' [0, 1, 2, 3, 4, 5] 1000 1000 1000))
   \<and> 120000 \<le> sint (121000 :: int64) - sint (1000 :: int64)
   \<and> fst (SendConfirmEmail env0
         (snd (SendConfirmEmail env0 world0 ''a@x.com'' [0, 1, 2, 3, 4, 5] 1000 1000 1000))
         ''a@x.com'' [6, 7, 8, 9, 10, 11] 121000 121000 121000) \<noteq> Some ErrTimeout"
proof -
  let ?first = "SendConfirmEmail env0 world0 ''a@x.com'' [0, 1, 2, 3, 4, 5] 1000 1000 1000"
  have r: "fst ?first = None"
    by (simp add: SendConfirmEmail_def issueConfirmEmailCode_def userByEmail_def
          generateRandomString_eq world0_def ann_def env0_def)
  have first: "?first = (fst ?first, snd ?first)" by simp
  have ok: "fst ?first \<noteq> Some ErrTimeout" using r by simp
  have t: "(0 :: int64) \<le>s 1000" "(0 :: int64) \<le>s 120999" "(0 :: int64) \<le>s 121000"
    "sint (120999 :: int64) - sint (1000 :: int64) < 120000"
    "120000 \<le> sint (121000 :: int64) - sint (1000 :: int64)"
    by (simp_all add: word_sle_eq)
  show ?thesis
    using r t
      C6_rate_limit_two_minutes [OF first ok t(1) t(2),
        where rs = "[6, 7, 8, 9, 10, 11]" and t_sent = 120999 and t_code = 120999]
      C6_rate_limit_two_minutes [OF first ok t(1) t(3),
        where rs = "[6, 7, 8, 9, 10, 11]" and t_sent = 121000 and t_code = 121000]
    by blast
qed

text \<open>
  C7. When no user has the email and the request passes the rate limit,
  \<open>SendConfirmEmail\<close> returns \<open>ErrNotFound\<close> and has written the marker at its clock
  reading, changing nothing else. The marker table it leaves is the one any request
  with the same marker table and clock readings leaves, the successful one included.
  A request repeated less than 120000 ms later therefore fails with \<open>ErrTimeout\<close>,
  not with \<open>ErrNotFound\<close>.
\<close>

theorem C7_not_found_consumes_rate_limit:
  assumes "userByEmail w email = None"
    and "fst (SendConfirmEmail env w email rs_a t_check_a t_sent_a t_code_a) \<noteq> Some ErrTimeout"
    and "0 \<le>s t_sent_a" and "0 \<le>s t_check_b"
    and "sint t_check_b - sint t_sent_a < 120000"
  shows "SendConfirmEmail env w email rs_a t_check_a t_sent_a t_code_a =
           (Some ErrNotFound,
            w\<lparr>confirmEmailLastSent := (confirmEmailLastSent w)(email \<mapsto> t_sent_a)\<rparr>)
       \<and> SendConfirmEmail env (snd (SendConfirmEmail env w email rs_a t_check_a t_sent_a t_code_a))
            email rs_b t_check_b t_sent_b t_code_b =
           (Some ErrTimeout, snd (SendConfirmEmail env w email rs_a t_check_a t_sent_a t_code_a))
       \<and> (confirmEmailLastSent v = confirmEmailLastSent w \<longrightarrow>
            fst (SendConfirmEmail env' v email rs' t_check_a t_sent_a t_code') \<noteq> Some ErrTimeout
            \<and> confirmEmailLastSent (snd (SendConfirmEmail env' v email rs' t_check_a t_sent_a t_code'))
                = confirmEmailLastSent (snd (SendConfirmEmail env w email rs_a t_check_a t_sent_a t_code_a)))"
proof -
  let ?w1 = "w\<lparr>confirmEmailLastSent := (confirmEmailLastSent w)(email \<mapsto> t_sent_a)\<rparr>"
  have first: "SendConfirmEmail env w email rs_a t_check_a t_sent_a t_code_a = (Some ErrNotFound, ?w1)"
    using SendConfirmEmail_passed [OF assms(2)] assms(1)
    by (simp add: issueConfirmEmailCode_def userByEmail_def)
  have m: "confirmEmailLastSent ?w1 email = Some t_sent_a" by simp
  have second: "SendConfirmEmail env ?w1 email rs_b t_check_b t_sent_b t_code_b = (Some ErrTimeout, ?w1)"
    by (rule SendConfirmEmail_limited [OF m assms(3,4,5)])
  have same: "fst (SendConfirmEmail env' v email rs' t_check_a t_sent_a t_code') \<noteq> Some ErrTimeout
              \<and> confirmEmailLastSent (snd (SendConfirmEmail env' v email rs' t_check_a t_sent_a t_code'))
                  = confirmEmailLastSent ?w1"
    if v: "confirmEmailLastSent v = confirmEmailLastSent w"
  proof -
    have pass: "\<not> (case confirmEmailLastSent w email of None \<Rightarrow> False
                   | Some l \<Rightarrow> t_check_a - l <s confirmEmailTimeout)"
      using assms(2) by (auto simp: SendConfirmEmail_def split: option.splits)
    have eq: "SendConfirmEmail env' v email rs' t_check_a t_sent_a t_code' =
            issueConfirmEmailCode env'
              (v\<lparr>confirmEmailLastSent := (confirmEmailLastSent w)(email \<mapsto> t_sent_a)\<rparr>) email rs' t_code'"
      using pass v by (simp add: SendConfirmEmail_def split: option.splits)
    show ?thesis
      unfolding eq
      by (simp add: issueConfirmEmailCode_not_timeout issueConfirmEmailCode_marker)
  qed
  show ?thesis
    using first second same by simp
qed

theorem C7_not_found_consumes_rate_limit_witness:
  "userByEmail world0 ''nobody@x.com'' = None
   \<and> (0 :: int64) \<le>s 1000 \<and> (0 :: int64) \<le>s 2000
   \<and> sint (2000 :: int64) - sint (1000 :: int64) < 120000
   \<and> SendConfirmEmail env0 world0 ''nobody@x.com'' [] 1000 1000 1000 =
       (Some ErrNotFound,
        world0\<lparr>confirmEmailLastSent := (confirmEmailLastSent world0)(''nobody@x.com'' \<mapsto> 1000)\<rparr>)
   \<and> SendConfirmEmail env0 (snd (SendConfirmEmail env0 world0 ''nobody@x.com'' [] 1000 1000 1000))
        ''nobody@x.com'' [] 2000 2000 2000 =
       (Some ErrTimeout, snd (SendConfirmEmail env0 world0 ''nobody@x.com'' [] 1000 1000 1000))
   \<and> confirmEmailLastSent
        (snd (SendConfirmEmail env0 (world0\<lparr>users := [ann\<lparr>Email := ''nobody@x.com''\<rparr>]\<rparr>)
                ''nobody@x.com'' [0, 1, 2, 3, 4, 5] 1000 1000 1000))
       = confirmEmailLastSent (snd (SendConfirmEmail env0 world0 ''nobody@x.com'' [] 1000 1000 1000))"
proof -
  have n: "userByEmail world0 ''nobody@x.com'' = None"
    by (simp add: userByEmail_def world0_def ann_def)
  have p: "fst (SendConfirmEmail env0 world0 ''nobody@x.com'' [] 1000 1000 1000) \<noteq> Some ErrTimeout"
    by (simp add: SendConfirmEmail_def issueConfirmEmailCode_def userByEmail_def world0_def ann_def)
  have t: "(0 :: int64) \<le>s 1000" "(0 :: int64) \<le>s 2000"
    "sint (2000 :: int64) - sint (1000 :: int64) < 120000"
    by (simp_all add: word_sle_eq)
  have v: "confirmEmailLastSent (world0\<lparr>users := [ann\<lparr>Email := ''nobody@x.com''\<rparr>]\<rparr>)
             = confirmEmailLastSent world0"
    by simp
  show ?thesis
    using n t v
      C7_not_found_consumes_rate_limit [OF n p t,
        where v = "world0\<lparr>users := [ann\<lparr>Email := ''nobody@x.com''\<rparr>]\<rparr>" and env' = env0
          and rs' = "[0, 1, 2, 3, 4, 5]" and t_code' = 1000
          and rs_b = "[]" and t_sent_b = 2000 and t_code_b = 2000]
    by blast
qed

section \<open>What is stored for a code\<close>

lemma loginTokenCode_first:
  "loginTokenCode w [] rs =
     (case generateRandomString 64 rs of
        Inl e \<Rightarrow> Inl e
      | Inr (code, rs') \<Rightarrow> loginTokenCode w code rs')"
  by (subst loginTokenCode.simps) simp

lemma loginTokenCode_fresh:
  assumes "code \<noteq> []" and "find (\<lambda>t. login_token.Code t = code) (loginTokens w) = None"
  shows "loginTokenCode w code rs = Inr code"
  using assms by (subst loginTokenCode.simps) simp

lemma userByEmail_marker [simp]:
  "userByEmail (w\<lparr>confirmEmailLastSent := m\<rparr>) email = userByEmail w email"
  by (simp add: userByEmail_def)

text \<open>
  C2, as the spec states it: what is stored for a confirmation code or a login token is
  a hash of the generated code, never the plaintext. It fails: with the reader
  delivering the draws 0 to 5, \<open>SendConfirmEmail\<close> stores the six characters it
  generated, and with 64 draws of 0 \<open>Login\<close> stores the very string it returns.
\<close>

theorem C2_plaintext_stored_counterexample:
  "emailCodes (snd (SendConfirmEmail env0 world0 ''a@x.com'' [0, 1, 2, 3, 4, 5] 1000 1000 1000)) 1
     = Some \<lparr>email_code.Code = ''012345'', email_code.ExpirationTime = 301000\<rparr>
   \<and> Login env0 world0 ''a@x.com'' ''pw1'' (replicate 64 0) 1000
     = (Inr (replicate 64 CHR ''0''),
        world0\<lparr>loginTokens := [\<lparr>login_token.Code = replicate 64 CHR ''0'',
                                 login_token.ExpirationTime = 301000,
                                 login_token.UserId = 1\<rparr>]\<rparr>)"
proof -
  have g: "generateRandomString 64 (replicate 64 0) = Inr (replicate 64 CHR ''0'', [])"
    by (simp add: generateRandomString_eq letters_def)
  have l: "loginTokenCode world0 [] (replicate 64 0) = Inr (replicate 64 CHR ''0'')"
    by (simp add: loginTokenCode_first g loginTokenCode_fresh world0_def)
  have a: "emailCodes (snd (SendConfirmEmail env0 world0 ''a@x.com'' [0, 1, 2, 3, 4, 5] 1000 1000 1000)) 1
             = Some \<lparr>email_code.Code = ''012345'', email_code.ExpirationTime = 301000\<rparr>"
    by (simp add: SendConfirmEmail_def issueConfirmEmailCode_def userByEmail_def
          generateRandomString_eq world0_def ann_def env0_def letters_def emailCodeLifetime_def)
  have b: "Login env0 world0 ''a@x.com'' ''pw1'' (replicate 64 0) 1000
     = (Inr (replicate 64 CHR ''0''),
        world0\<lparr>loginTokens := [\<lparr>login_token.Code = replicate 64 CHR ''0'',
                                 login_token.ExpirationTime = 301000,
                                 login_token.UserId = 1\<rparr>]\<rparr>)"
  proof -
    have u: "userByEmail world0 ''a@x.com'' = Some ann"
      by (simp add: userByEmail_def world0_def ann_def)
    have p: "CompareHashAndPassword env0 (PasswordHash ann) ''pw1''"
      by (simp add: env0_def ann_def)
    have i: "Id ann = 1" "loginTokens world0 = []"
      by (simp_all add: ann_def world0_def)
    show ?thesis
      by (simp add: Login_def u p l i loginTokenLifetime_def)
  qed
  show ?thesis using a b by simp
qed

text \<open>
  C2, amended. The services store a code as it was generated. When \<open>SendConfirmEmail\<close>
  passes the rate limit for an unconfirmed user and the reader delivers the code, the
  user's stored \<open>EmailCode\<close> holds that code and the expiration five minutes
  (\<open>emailCodeLifetime\<close>) after the clock reading. When \<open>Login\<close> returns a token, the
  store is the old one with one more \<open>LoginToken\<close> row, whose \<open>Code\<close> is the returned
  token and whose expiration is \<open>loginTokenLifetime\<close> after the clock reading.
\<close>

theorem C2_codes_stored_as_generated:
  "(fst (SendConfirmEmail env w email rs t_check t_sent t_code) \<noteq> Some ErrTimeout
      \<and> userByEmail w email = Some u \<and> \<not> EmailConfirmed u
      \<and> generateRandomString 6 rs = Inr (code, rest) \<longrightarrow>
      emailCodes (snd (SendConfirmEmail env w email rs t_check t_sent t_code)) (Id u)
        = Some \<lparr>email_code.Code = code, email_code.ExpirationTime = t_code + emailCodeLifetime\<rparr>)
   \<and> (Login env v email_l password rs_l now = (Inr token, v') \<longrightarrow>
        (\<exists>a. userByEmail v email_l = Some a
           \<and> v' = v\<lparr>loginTokens := loginTokens v @
                      [\<lparr>login_token.Code = token,
                        login_token.ExpirationTime = now + loginTokenLifetime,
                        login_token.UserId = Id a\<rparr>]\<rparr>))"
proof (intro conjI impI)
  assume h: "fst (SendConfirmEmail env w email rs t_check t_sent t_code) \<noteq> Some ErrTimeout
      \<and> userByEmail w email = Some u \<and> \<not> EmailConfirmed u
      \<and> generateRandomString 6 rs = Inr (code, rest)"
  then have eq: "SendConfirmEmail env w email rs t_check t_sent t_code =
           issueConfirmEmailCode env
             (w\<lparr>confirmEmailLastSent := (confirmEmailLastSent w)(email \<mapsto> t_sent)\<rparr>) email rs t_code"
    by (intro SendConfirmEmail_passed) simp
  show "emailCodes (snd (SendConfirmEmail env w email rs t_check t_sent t_code)) (Id u)
        = Some \<lparr>email_code.Code = code, email_code.ExpirationTime = t_code + emailCodeLifetime\<rparr>"
    unfolding eq using h
    by (simp add: issueConfirmEmailCode_def Let_def split: option.splits)
next
  assume "Login env v email_l password rs_l now = (Inr token, v')"
  then show "\<exists>a. userByEmail v email_l = Some a
           \<and> v' = v\<lparr>loginTokens := loginTokens v @
                      [\<lparr>login_token.Code = token,
                        login_token.ExpirationTime = now + loginTokenLifetime,
                        login_token.UserId = Id a\<rparr>]\<rparr>"
    by (auto simp: Login_def split: option.splits if_splits sum.splits)
qed

theorem C2_codes_stored_as_generated_witness:
  "fst (SendConfirmEmail env0 world0 ''a@x.com'' [0, 1, 2, 3, 4, 5] 1000 1000 1000) \<noteq> Some ErrTimeout
   \<and> userByEmail world0 ''a@x.com'' = Some ann \<and> \<not> EmailConfirmed ann
   \<and> generateRandomString 6 [0, 1, 2, 3, 4, 5] = Inr (''012345'', [])
   \<and> emailCodes (snd (SendConfirmEmail env0 world0 ''a@x.com'' [0, 1, 2, 3, 4, 5] 1000 1000 1000)) (Id ann)
       = Some \<lparr>email_code.Code = ''012345'', email_code.ExpirationTime = 1000 + emailCodeLifetime\<rparr>
   \<and> fst (Login env0 world0 ''a@x.com'' ''pw1'' (replicate 64 0) 1000) = Inr (replicate 64 CHR ''0'')
   \<and> (\<exists>a. userByEmail world0 ''a@x.com'' = Some a
        \<and> snd (Login env0 world0 ''a@x.com'' ''pw1'' (replicate 64 0) 1000)
          = world0\<lparr>loginTokens := loginTokens world0 @
                      [\<lparr>login_token.Code = replicate 64 CHR ''0'',
                        login_token.ExpirationTime = 1000 + loginTokenLifetime,
                        login_token.UserId = Id a\<rparr>]\<rparr>)"
proof -
  have p: "fst (SendConfirmEmail env0 world0 ''a@x.com'' [0, 1, 2, 3, 4, 5] 1000 1000 1000) \<noteq> Some ErrTimeout"
    by (simp add: SendConfirmEmail_def issueConfirmEmailCode_not_timeout world0_def)
  have u: "userByEmail world0 ''a@x.com'' = Some ann" "\<not> EmailConfirmed ann"
    by (simp_all add: userByEmail_def world0_def ann_def)
  have g: "generateRandomString 6 [0, 1, 2, 3, 4, 5] = Inr (''012345'', [])"
    by (simp add: generateRandomString_eq letters_def)
  have g64: "generateRandomString 64 (replicate 64 0) = Inr (replicate 64 CHR ''0'', [])"
    by (simp add: generateRandomString_eq letters_def)
  have l: "loginTokenCode world0 [] (replicate 64 0) = Inr (replicate 64 CHR ''0'')"
    by (simp add: loginTokenCode_first g64 loginTokenCode_fresh world0_def)
  have f: "fst (Login env0 world0 ''a@x.com'' ''pw1'' (replicate 64 0) 1000) = Inr (replicate 64 CHR ''0'')"
    by (simp add: Login_def u l) (simp add: env0_def ann_def)
  have login: "Login env0 world0 ''a@x.com'' ''pw1'' (replicate 64 0) 1000
                 = (Inr (replicate 64 CHR ''0''),
                    snd (Login env0 world0 ''a@x.com'' ''pw1'' (replicate 64 0) 1000))"
    using f by (metis prod.collapse)
  note c2 = C2_codes_stored_as_generated [where env = env0 and w = world0 and email = "''a@x.com''"
      and rs = "[0, 1, 2, 3, 4, 5]" and t_check = 1000 and t_sent = 1000 and t_code = 1000
      and u = ann and code = "''012345''" and rest = "[]"
      and v = world0 and email_l = "''a@x.com''" and password = "''pw1''"
      and rs_l = "replicate 64 0" and now = 1000 and token = "replicate 64 CHR ''0''"
      and v' = "snd (Login env0 world0 ''a@x.com'' ''pw1'' (replicate 64 0) 1000)"]
  show ?thesis
    using p u g f login c2 by blast
qed

section \<open>Expired codes and tokens\<close>

lemma VerifyConfirmEmailCode_expired:
  assumes "userByEmail w email = Some u"
    and "emailCodes w (Id u) = Some ec"
    and "email_code.Code ec = code"
    and "email_code.ExpirationTime ec \<le>s now"
  shows "VerifyConfirmEmailCode w email code now
           = (False, w\<lparr>emailCodes := (emailCodes w)(Id u := None)\<rparr>)"
  using assms
  by (simp add: VerifyConfirmEmailCode_def joinedEmailCode_def Let_def word_sless_alt word_sle_eq)

lemma VerifyConfirmEmailCode_no_code:
  assumes "userByEmail w email = Some u"
    and "emailCodes w (Id u) = None"
    and "code \<noteq> [] \<or> 0 \<le>s now"
  shows "fst (VerifyConfirmEmailCode w email code now) = False"
  using assms
  by (auto simp: VerifyConfirmEmailCode_def joinedEmailCode_def Let_def word_sless_alt word_sle_eq)

lemma find_filter_None:
  assumes "\<forall>x \<in> set xs. P x \<longrightarrow> \<not> Q x"
  shows "find P (filter Q xs) = None"
  using assms by (induction xs) auto

lemma DeleteUser_expired:
  assumes "GetById s uid = Some a"
    and "CompareHashAndPassword env (PasswordHash a) (Password b)"
    and "GetTwoFATokenByCode env s a (TwoFAToken b) = Some t"
    and "two_fa_token.ExpirationTime t <s now"
  shows "DeleteUser env s uid (Some b) now = ((403, InvalidCredentials), DeleteTwoFAToken s t)"
  using assms by (simp add: DeleteUser_def)

lemma DeleteUser_no_token:
  assumes "GetById s uid = Some a"
    and "GetTwoFATokenByCode env s a (TwoFAToken b) = None"
  shows "fst (DeleteUser env s uid (Some b) now) = (403, InvalidCredentials)"
  using assms by (simp add: DeleteUser_def)

text \<open>
  C5. A matching value presented when the code or token has expired fails and removes
  what was stored, so that presenting the same value again fails too.

  Email-confirmation code (\<open>VerifyConfirmEmailCode\<close>, where a code is unexpired while
  \<open>ExpirationTime > now\<close>): the call returns failure, the user's code is gone and no
  row is confirmed; a second call with the same value, at a clock reading after the
  epoch or with a non-empty value, returns failure.

  2FA token (\<open>DeleteUser\<close>, where a token is expired once \<open>ExpirationTime < now\<close>): the
  call answers 403 \<open>InvalidCredentials\<close>, the token's row is gone and the user is
  kept; when the presented value identifies one token of the user, a second call with
  the same value finds no token and answers 403 \<open>InvalidCredentials\<close> again.
\<close>

theorem C5_expired_match_fails_and_is_removed:
  "(userByEmail w email = Some u \<and> emailCodes w (Id u) = Some ec
      \<and> email_code.Code ec = code \<and> email_code.ExpirationTime ec \<le>s now
      \<and> (code \<noteq> [] \<or> 0 \<le>s now') \<longrightarrow>
      VerifyConfirmEmailCode w email code now
        = (False, w\<lparr>emailCodes := (emailCodes w)(Id u := None)\<rparr>)
      \<and> emailCodes (snd (VerifyConfirmEmailCode w email code now)) (Id u) = None
      \<and> fst (VerifyConfirmEmailCode (snd (VerifyConfirmEmailCode w email code now)) email code now')
          = False)
   \<and> (GetById s uid = Some a \<and> CompareHashAndPassword env (PasswordHash a) (Password b)
      \<and> GetTwoFATokenByCode env s a (TwoFAToken b) = Some t
      \<and> two_fa_token.ExpirationTime t <s now_s
      \<and> (\<forall>t' \<in> set (twoFATokens s).
            two_fa_token.UserId t' = Id a \<and> CodeHash t' = HashToken env (TwoFAToken b)
              \<longrightarrow> Id t' = Id t) \<longrightarrow>
      DeleteUser env s uid (Some b) now_s = ((403, InvalidCredentials), DeleteTwoFAToken s t)
      \<and> GetTwoFATokenByCode env (snd (DeleteUser env s uid (Some b) now_s)) a (TwoFAToken b) = None
      \<and> GetById (snd (DeleteUser env s uid (Some b) now_s)) uid = Some a
      \<and> fst (DeleteUser env (snd (DeleteUser env s uid (Some b) now_s)) uid (Some b) now_s')
          = (403, InvalidCredentials))"
proof (intro conjI impI)
  assume h: "userByEmail w email = Some u \<and> emailCodes w (Id u) = Some ec
      \<and> email_code.Code ec = code \<and> email_code.ExpirationTime ec \<le>s now
      \<and> (code \<noteq> [] \<or> 0 \<le>s now')"
  let ?w1 = "w\<lparr>emailCodes := (emailCodes w)(Id u := None)\<rparr>"
  from h have h1: "userByEmail w email = Some u" and h2: "emailCodes w (Id u) = Some ec"
    and h3: "email_code.Code ec = code" and h4: "email_code.ExpirationTime ec \<le>s now"
    and h5: "code \<noteq> [] \<or> 0 \<le>s now'"
    by simp_all
  have first: "VerifyConfirmEmailCode w email code now = (False, ?w1)"
    by (rule VerifyConfirmEmailCode_expired [OF h1 h2 h3 h4])
  have u1: "userByEmail ?w1 email = Some u" "emailCodes ?w1 (Id u) = None"
    using h by (simp_all add: userByEmail_def)
  show "VerifyConfirmEmailCode w email code now = (False, ?w1)" by (rule first)
  show "emailCodes (snd (VerifyConfirmEmailCode w email code now)) (Id u) = None"
    by (simp add: first)
  show "fst (VerifyConfirmEmailCode (snd (VerifyConfirmEmailCode w email code now)) email code now')
          = False"
    unfolding first snd_conv by (rule VerifyConfirmEmailCode_no_code [OF u1 h5])
next
  assume h: "GetById s uid = Some a \<and> CompareHashAndPassword env (PasswordHash a) (Password b)
      \<and> GetTwoFATokenByCode env s a (TwoFAToken b) = Some t
      \<and> two_fa_token.ExpirationTime t <s now_s
      \<and> (\<forall>t' \<in> set (twoFATokens s).
            two_fa_token.UserId t' = Id a \<and> CodeHash t' = HashToken env (TwoFAToken b)
              \<longrightarrow> Id t' = Id t)"
  let ?s1 = "DeleteTwoFAToken s t"
  from h have h1: "GetById s uid = Some a"
    and h2: "CompareHashAndPassword env (PasswordHash a) (Password b)"
    and h3: "GetTwoFATokenByCode env s a (TwoFAToken b) = Some t"
    and h4: "two_fa_token.ExpirationTime t <s now_s"
    by simp_all
  have first: "DeleteUser env s uid (Some b) now_s = ((403, InvalidCredentials), ?s1)"
    by (rule DeleteUser_expired [OF h1 h2 h3 h4])
  have gone: "GetTwoFATokenByCode env ?s1 a (TwoFAToken b) = None"
    using h by (simp add: GetTwoFATokenByCode_def DeleteTwoFAToken_def find_filter_None)
  have kept: "GetById ?s1 uid = Some a"
    using h by (simp add: GetById_def DeleteTwoFAToken_def)
  show "DeleteUser env s uid (Some b) now_s = ((403, InvalidCredentials), ?s1)" by (rule first)
  show "GetTwoFATokenByCode env (snd (DeleteUser env s uid (Some b) now_s)) a (TwoFAToken b) = None"
    by (simp add: first gone)
  show "GetById (snd (DeleteUser env s uid (Some b) now_s)) uid = Some a"
    by (simp add: first kept)
  show "fst (DeleteUser env (snd (DeleteUser env s uid (Some b) now_s)) uid (Some b) now_s')
          = (403, InvalidCredentials)"
    unfolding first snd_conv by (rule DeleteUser_no_token [OF kept gone])
qed

theorem C5_expired_match_fails_and_is_removed_witness:
  "userByEmail world1 ''a@x.com'' = Some ann \<and> emailCodes world1 (Id ann) = Some code0
   \<and> email_code.Code code0 = ''ABC123'' \<and> email_code.ExpirationTime code0 \<le>s 6000
   \<and> VerifyConfirmEmailCode world1 ''a@x.com'' ''ABC123'' 6000 = (False, world0)
   \<and> fst (VerifyConfirmEmailCode (snd (VerifyConfirmEmailCode world1 ''a@x.com'' ''ABC123'' 6000))
            ''a@x.com'' ''ABC123'' 6001) = False
   \<and> GetById store0 1 = Some ann \<and> CompareHashAndPassword env0 (PasswordHash ann) (Password body0)
   \<and> GetTwoFATokenByCode env0 store0 ann (TwoFAToken body0) = Some token0
   \<and> two_fa_token.ExpirationTime token0 <s 101
   \<and> DeleteUser env0 store0 1 (Some body0) 101
       = ((403, InvalidCredentials), store0\<lparr>twoFATokens := []\<rparr>)
   \<and> fst (DeleteUser env0 (snd (DeleteUser env0 store0 1 (Some body0) 101)) 1 (Some body0) 102)
       = (403, InvalidCredentials)"
proof -
  have e: "userByEmail world1 ''a@x.com'' = Some ann" "emailCodes world1 (Id ann) = Some code0"
    "email_code.Code code0 = ''ABC123''" "email_code.ExpirationTime code0 \<le>s 6000"
    "''ABC123'' \<noteq> [] \<or> (0 :: int64) \<le>s 6001"
    by (simp_all add: userByEmail_def world1_def world0_def ann_def code0_def word_sle_eq)
  have w: "world1\<lparr>emailCodes := (emailCodes world1)(Id ann := None)\<rparr> = world0"
    by (simp add: world1_def world0_def ann_def)
  have t: "GetById store0 1 = Some ann"
    "CompareHashAndPassword env0 (PasswordHash ann) (Password body0)"
    "GetTwoFATokenByCode env0 store0 ann (TwoFAToken body0) = Some token0"
    "two_fa_token.ExpirationTime token0 <s 101"
    "\<forall>t' \<in> set (twoFATokens store0).
        two_fa_token.UserId t' = Id ann \<and> CodeHash t' = HashToken env0 (TwoFAToken body0)
          \<longrightarrow> Id t' = Id token0"
    by (simp_all add: GetById_def GetTwoFATokenByCode_def store0_def ann_def env0_def body0_def
          token0_def word_sless_alt)
  have d: "DeleteTwoFAToken store0 token0 = store0\<lparr>twoFATokens := []\<rparr>"
    by (simp add: DeleteTwoFAToken_def store0_def)
  note c5 = C5_expired_match_fails_and_is_removed [where w = world1 and email = "''a@x.com''"
      and u = ann and ec = code0 and code = "''ABC123''" and now = 6000 and now' = 6001
      and s = store0 and uid = 1 and a = ann and env = env0 and b = body0 and t = token0
      and now_s = 101 and now_s' = 102]
  show ?thesis
    using e t c5 unfolding w d by blast
qed

section \<open>Transactions and memberships\<close>

lemma find_append_cases:
  "find P (xs @ ys) = (case find P xs of None \<Rightarrow> find P ys | Some x \<Rightarrow> Some x)"
  by (induction xs) simp_all

lemma GetLastTransactionLogEntry_newest:
  assumes "transactionLog gs = older @ l # newer"
    and "logEntryOf g u l"
    and "\<forall>e \<in> set newer. \<not> logEntryOf g u e"
  shows "GetLastTransactionLogEntry gs g u = Some l"
proof -
  have "find (logEntryOf g u) (rev newer) = None"
    using assms(3) by (simp add: find_None_iff)
  then show ?thesis
    using assms(1,2) by (simp add: GetLastTransactionLogEntry_def find_append_cases)
qed

lemma GetLastTransactionLogEntry_none:
  assumes "\<forall>e \<in> set (transactionLog gs). \<not> logEntryOf g u e"
  shows "GetLastTransactionLogEntry gs g u = None"
  using assms by (simp add: GetLastTransactionLogEntry_def find_None_iff)

text \<open>
  C9. For a transaction of amount \<open>a\<close> whose non-bank participants are given,
  \<open>CreateTransactionFromPaymentPlan\<close> appends one entry to the log. Its
  \<open>BalanceDifferenceSender\<close> is \<open>-a\<close> and its \<open>BalanceDifferenceReceiver\<close> is \<open>a\<close>. A
  sender that is not the bank is recorded with its id and with its prior balance minus
  \<open>a\<close>, a receiver that is not the bank with its id and its prior balance plus \<open>a\<close>; a
  bank participant is recorded with balance 0 and the zero UUID. The prior balance of
  a user \<open>x\<close> (\<open>GetUserBalance\<close>) is 0 when no entry of the group names \<open>x\<close>, and
  otherwise the new balance recorded for \<open>x\<close> in the newest such entry (the sender's
  when \<open>x\<close> is its sender, else the receiver's). \<open>CreateTransaction\<close> is the same call
  with the zero payment plan id. The arithmetic is that of Go's \<open>int\<close>.
\<close>

theorem C9_transaction_entry_balances:
  assumes "\<not> senderIsBank \<longrightarrow> sender = Some su"
    and "\<not> receiverIsBank \<longrightarrow> receiver = Some ru"
  shows "(\<exists>e. CreateTransactionFromPaymentPlan gs newId g senderIsBank receiverIsBank sender receiver
               title description a paymentPlanId
             = Inr (gs\<lparr>transactionLog := transactionLog gs @ [e]\<rparr>)
           \<and> BalanceDifferenceSender e = - a
           \<and> BalanceDifferenceReceiver e = a
           \<and> (\<not> senderIsBank \<longrightarrow>
                NewBalanceSender e = GetUserBalance gs g su - a
                \<and> transaction_log_entry.SenderId e = Id su)
           \<and> (senderIsBank \<longrightarrow>
                NewBalanceSender e = 0 \<and> transaction_log_entry.SenderId e = 0)
           \<and> (\<not> receiverIsBank \<longrightarrow>
                NewBalanceReceiver e = GetUserBalance gs g ru + a
                \<and> transaction_log_entry.ReceiverId e = Id ru)
           \<and> (receiverIsBank \<longrightarrow>
                NewBalanceReceiver e = 0 \<and> transaction_log_entry.ReceiverId e = 0))
       \<and> CreateTransaction gs newId g senderIsBank receiverIsBank sender receiver title description a
           = CreateTransactionFromPaymentPlan gs newId g senderIsBank receiverIsBank sender receiver
               title description a 0
       \<and> ((\<forall>e \<in> set (transactionLog gs). \<not> logEntryOf g x e) \<longrightarrow> GetUserBalance gs g x = 0)
       \<and> (transactionLog gs = older @ l # newer \<and> logEntryOf g x l
            \<and> (\<forall>e \<in> set newer. \<not> logEntryOf g x e) \<longrightarrow>
            GetUserBalance gs g x =
              (if transaction_log_entry.SenderId l = Id x then NewBalanceSender l
               else NewBalanceReceiver l))"
proof (intro conjI impI)
  show "\<exists>e. CreateTransactionFromPaymentPlan gs newId g senderIsBank receiverIsBank sender receiver
               title description a paymentPlanId
             = Inr (gs\<lparr>transactionLog := transactionLog gs @ [e]\<rparr>)
           \<and> BalanceDifferenceSender e = - a
           \<and> BalanceDifferenceReceiver e = a
           \<and> (\<not> senderIsBank \<longrightarrow>
                NewBalanceSender e = GetUserBalance gs g su - a
                \<and> transaction_log_entry.SenderId e = Id su)
           \<and> (senderIsBank \<longrightarrow>
                NewBalanceSender e = 0 \<and> transaction_log_entry.SenderId e = 0)
           \<and> (\<not> receiverIsBank \<longrightarrow>
                NewBalanceReceiver e = GetUserBalance gs g ru + a
                \<and> transaction_log_entry.ReceiverId e = Id ru)
           \<and> (receiverIsBank \<longrightarrow>
                NewBalanceReceiver e = 0 \<and> transaction_log_entry.ReceiverId e = 0)"
  proof -
    let ?e = "\<lparr>Id = newId, Title = title,
               transaction_log_entry.Description = description,
               transaction_log_entry.Amount = a,
               transaction_log_entry.GroupId = Id g,
               transaction_log_entry.SenderIsBank = senderIsBank,
               transaction_log_entry.SenderId = (if \<not> senderIsBank then Id (the sender) else 0),
               NewBalanceSender =
                 (if \<not> senderIsBank then GetUserBalance gs g (the sender) - a else 0),
               BalanceDifferenceSender = - a,
               transaction_log_entry.ReceiverIsBank = receiverIsBank,
               transaction_log_entry.ReceiverId = (if \<not> receiverIsBank then Id (the receiver) else 0),
               NewBalanceReceiver =
                 (if \<not> receiverIsBank then GetUserBalance gs g (the receiver) + a else 0),
               BalanceDifferenceReceiver = a,
               PaymentPlanId = paymentPlanId\<rparr>"
    have "CreateTransactionFromPaymentPlan gs newId g senderIsBank receiverIsBank sender receiver
               title description a paymentPlanId
             = Inr (gs\<lparr>transactionLog := transactionLog gs @ [?e]\<rparr>)"
      using assms by (auto simp: CreateTransactionFromPaymentPlan_def Let_def)
    then show ?thesis
      using assms by (intro exI [of _ ?e]) auto
  qed
next
  show "CreateTransaction gs newId g senderIsBank receiverIsBank sender receiver title description a
           = CreateTransactionFromPaymentPlan gs newId g senderIsBank receiverIsBank sender receiver
               title description a 0"
    by (simp add: CreateTransaction_def)
next
  assume "\<forall>e \<in> set (transactionLog gs). \<not> logEntryOf g x e"
  then show "GetUserBalance gs g x = 0"
    by (simp add: GetUserBalance_def GetLastTransactionLogEntry_none)
next
  assume "transactionLog gs = older @ l # newer \<and> logEntryOf g x l
            \<and> (\<forall>e \<in> set newer. \<not> logEntryOf g x e)"
  then have "GetLastTransactionLogEntry gs g x = Some l"
    by (intro GetLastTransactionLogEntry_newest [of gs older l newer]) simp_all
  then show "GetUserBalance gs g x =
              (if transaction_log_entry.SenderId l = Id x then NewBalanceSender l
               else NewBalanceReceiver l)"
    by (simp add: GetUserBalance_def)
qed


theorem C9_transaction_entry_balances_witness:
  "CreateTransactionFromPaymentPlan groups0 21 group0 False False (Some ann) (Some bob)
       ''Lunch'' [] 30 0
     = Inr (groups0\<lparr>transactionLog := [entry0,
         \<lparr>Id = 21, Title = ''Lunch'', transaction_log_entry.Description = [],
          transaction_log_entry.Amount = 30, transaction_log_entry.GroupId = 5,
          transaction_log_entry.SenderIsBank = False, transaction_log_entry.SenderId = 1,
          NewBalanceSender = 70, BalanceDifferenceSender = - 30,
          transaction_log_entry.ReceiverIsBank = False, transaction_log_entry.ReceiverId = 2,
          NewBalanceReceiver = 30, BalanceDifferenceReceiver = 30, PaymentPlanId = 0\<rparr>]\<rparr>)
   \<and> filter (logEntryOf group0 bob) (transactionLog groups0) = []
   \<and> GetUserBalance groups0 group0 bob = 0
   \<and> transactionLog groups0 = [] @ entry0 # [] \<and> logEntryOf group0 ann entry0
   \<and> GetUserBalance groups0 group0 ann = 100"
proof -
  have b: "\<forall>e \<in> set (transactionLog groups0). \<not> logEntryOf group0 bob e"
    by (simp add: groups0_def logEntryOf_def entry0_def bob_def group0_def)
  have a: "transactionLog groups0 = [] @ entry0 # []" "logEntryOf group0 ann entry0"
    "\<forall>e \<in> set []. \<not> logEntryOf group0 ann e"
    by (simp_all add: groups0_def logEntryOf_def entry0_def ann_def group0_def)
  have p: "\<not> False \<longrightarrow> Some ann = Some ann" "\<not> False \<longrightarrow> Some bob = Some bob"
    by simp_all
  note ca = C9_transaction_entry_balances [OF p, where gs = groups0 and g = group0 and x = ann
      and older = "[]" and l = entry0 and newer = "[]" and newId = 21 and title = "''Lunch''"
      and description = "[]" and a = 30 and paymentPlanId = 0]
  note cb = C9_transaction_entry_balances [OF p, where gs = groups0 and g = group0 and x = bob
      and older = "[]" and l = entry0 and newer = "[]" and newId = 21 and title = "''Lunch''"
      and description = "[]" and a = 30 and paymentPlanId = 0]
  have balA: "GetUserBalance groups0 group0 ann = 100"
    using ca a by (simp add: entry0_def ann_def)
  have balB: "GetUserBalance groups0 group0 bob = 0"
    using cb b by blast
  from ca obtain e where
    e: "CreateTransactionFromPaymentPlan groups0 21 group0 False False (Some ann) (Some bob)
          ''Lunch'' [] 30 0 = Inr (groups0\<lparr>transactionLog := transactionLog groups0 @ [e]\<rparr>)"
    by blast
  have "CreateTransactionFromPaymentPlan groups0 21 group0 False False (Some ann) (Some bob)
          ''Lunch'' [] 30 0
        = Inr (groups0\<lparr>transactionLog := [entry0,
         \<lparr>Id = 21, Title = ''Lunch'', transaction_log_entry.Description = [],
          transaction_log_entry.Amount = 30, transaction_log_entry.GroupId = 5,
          transaction_log_entry.SenderIsBank = False, transaction_log_entry.SenderId = 1,
          NewBalanceSender = 70, BalanceDifferenceSender = - 30,
          transaction_log_entry.ReceiverIsBank = False, transaction_log_entry.ReceiverId = 2,
          NewBalanceReceiver = 30, BalanceDifferenceReceiver = 30, PaymentPlanId = 0\<rparr>]\<rparr>)"
    by (simp add: CreateTransactionFromPaymentPlan_def Let_def balA balB)
       (simp add: groups0_def ann_def bob_def group0_def)
  moreover have "filter (logEntryOf group0 bob) (transactionLog groups0) = []"
    using b by (simp add: filter_empty_conv)
  ultimately show ?thesis
    using a balA balB by simp
qed


lemma find_filter_same_None:
  assumes "\<forall>x \<in> set xs. \<not> Q x \<longrightarrow> \<not> P x"
  shows "(find P (filter Q xs) = None) = (find P xs = None)"
  using assms by (auto simp: find_None_iff)

lemma find_Some_in_set:
  assumes "find P xs = Some x"
  shows "x \<in> set xs \<and> P x"
  using assms by (induction xs) (auto split: if_splits)

lemma distinct_Id_same_row:
  fixes m :: group_membership
  assumes "distinct (map Id rows)" and "m \<in> set rows" and "r \<in> set rows" and "Id r = Id m"
  shows "r = m"
  using assms by (meson distinct_map inj_on_eq_iff)

text \<open>
  C10. When the group has a membership record for the user, \<open>RemoveMember\<close> succeeds and
  \<open>IsAdmin\<close> answers after the call what it answered before. If the record is an
  admin's, it is kept with \<open>IsMember\<close> cleared and \<open>IsAdmin\<close> still true, every other
  record unchanged; if not, the record is deleted. The primary keys of the table are
  distinct.
\<close>

theorem C10_RemoveMember_keeps_admin_status:
  assumes "find (\<lambda>m. group_membership.GroupId m = Id g \<and> group_membership.UserId m = Id u)
             (memberships gs) = Some membership"
    and "distinct (map Id (memberships gs))"
  shows "fst (RemoveMember gs g u) = None
       \<and> IsAdmin (snd (RemoveMember gs g u)) g u = IsAdmin gs g u
       \<and> (group_membership.IsAdmin membership \<longrightarrow>
            memberships (snd (RemoveMember gs g u))
              = map (\<lambda>r. if r = membership then membership\<lparr>IsMember := False\<rparr> else r) (memberships gs)
            \<and> membership\<lparr>IsMember := False\<rparr> \<in> set (memberships (snd (RemoveMember gs g u)))
            \<and> group_membership.IsAdmin (membership\<lparr>IsMember := False\<rparr>)
            \<and> IsAdmin (snd (RemoveMember gs g u)) g u)
       \<and> (\<not> group_membership.IsAdmin membership \<longrightarrow>
            memberships (snd (RemoveMember gs g u)) = filter (\<lambda>r. r \<noteq> membership) (memberships gs)
            \<and> membership \<notin> set (memberships (snd (RemoveMember gs g u))))"
proof -
  let ?P = "\<lambda>m. group_membership.GroupId m = Id g \<and> group_membership.UserId m = Id u
                 \<and> group_membership.IsAdmin m = True"
  let ?f = "\<lambda>r. if Id r = Id membership then r\<lparr>IsMember := False\<rparr> else r"
  have mem: "membership \<in> set (memberships gs)"
    and key: "group_membership.GroupId membership = Id g \<and> group_membership.UserId membership = Id u"
    using find_Some_in_set [OF assms(1)] by simp_all
  have same: "r = membership" if "r \<in> set (memberships gs)" and "Id r = Id membership" for r
    using distinct_Id_same_row [OF assms(2) mem that] .
  have map_eq: "map ?f (memberships gs)
                  = map (\<lambda>r. if r = membership then membership\<lparr>IsMember := False\<rparr> else r) (memberships gs)"
    using same by (intro map_cong) auto
  have filter_eq: "filter (\<lambda>r. Id r \<noteq> Id membership) (memberships gs)
                     = filter (\<lambda>r. r \<noteq> membership) (memberships gs)"
    using same by (intro filter_cong) auto
  show ?thesis
  proof (cases "group_membership.IsAdmin membership")
    case True
    have ms: "memberships (snd (RemoveMember gs g u)) = map ?f (memberships gs)"
      and ok: "fst (RemoveMember gs g u) = None"
      using assms(1) True by (simp_all add: RemoveMember_def Let_def)
    have "find ?P (map ?f (memberships gs)) = map_option ?f (find ?P (memberships gs))"
      by (rule find_map_preserved) simp
    then have adm: "IsAdmin (snd (RemoveMember gs g u)) g u = IsAdmin gs g u"
      by (simp add: IsAdmin_def ms)
    have "find ?P (memberships gs) \<noteq> None"
      using mem key True by (auto simp: find_None_iff)
    then have now: "IsAdmin gs g u" by (simp add: IsAdmin_def)
    have kept: "membership\<lparr>IsMember := False\<rparr> \<in> set (map ?f (memberships gs))"
      using mem by (force simp: image_iff)
    show ?thesis
      using True ok adm now kept by (simp add: ms map_eq [symmetric])
  next
    case False
    have ms: "memberships (snd (RemoveMember gs g u))
                = filter (\<lambda>r. Id r \<noteq> Id membership) (memberships gs)"
      and ok: "fst (RemoveMember gs g u) = None"
      using assms(1) False by (simp_all add: RemoveMember_def Let_def)
    have "\<forall>x \<in> set (memberships gs). \<not> Id x \<noteq> Id membership \<longrightarrow> \<not> ?P x"
      using same False by auto
    from find_filter_same_None [OF this]
    have adm: "IsAdmin (snd (RemoveMember gs g u)) g u = IsAdmin gs g u"
      by (simp add: IsAdmin_def ms)
    show ?thesis
      using False ok adm by (simp add: ms filter_eq)
  qed
qed

theorem C10_RemoveMember_keeps_admin_status_witness:
  "find (\<lambda>m. group_membership.GroupId m = Id group0 \<and> group_membership.UserId m = Id ann)
      (memberships groups0) = Some memberAnn
   \<and> find (\<lambda>m. group_membership.GroupId m = Id group0 \<and> group_membership.UserId m = Id bob)
      (memberships groups0) = Some memberBob
   \<and> distinct (map Id (memberships groups0))
   \<and> group_membership.IsAdmin memberAnn \<and> \<not> group_membership.IsAdmin memberBob
   \<and> fst (RemoveMember groups0 group0 ann) = None
   \<and> memberships (snd (RemoveMember groups0 group0 ann)) = [memberAnn\<lparr>IsMember := False\<rparr>, memberBob]
   \<and> IsAdmin groups0 group0 ann \<and> IsAdmin (snd (RemoveMember groups0 group0 ann)) group0 ann
   \<and> fst (RemoveMember groups0 group0 bob) = None
   \<and> memberships (snd (RemoveMember groups0 group0 bob)) = [memberAnn]
   \<and> \<not> IsAdmin groups0 group0 bob \<and> \<not> IsAdmin (snd (RemoveMember groups0 group0 bob)) group0 bob"
proof -
  have fa: "find (\<lambda>m. group_membership.GroupId m = Id group0 \<and> group_membership.UserId m = Id ann)
      (memberships groups0) = Some memberAnn"
    and fb: "find (\<lambda>m. group_membership.GroupId m = Id group0 \<and> group_membership.UserId m = Id bob)
      (memberships groups0) = Some memberBob"
    and d: "distinct (map Id (memberships groups0))"
    by (simp_all add: groups0_def memberAnn_def memberBob_def group0_def ann_def bob_def)
  have x: "group_membership.IsAdmin memberAnn" "\<not> group_membership.IsAdmin memberBob"
    "memberBob \<noteq> memberAnn" "\<not> IsAdmin groups0 group0 bob" "IsAdmin groups0 group0 ann"
    "memberships groups0 = [memberAnn, memberBob]"
    by (simp_all add: IsAdmin_def groups0_def memberAnn_def memberBob_def group0_def bob_def
          ann_def)
  show ?thesis
    using fa fb d x
      C10_RemoveMember_keeps_admin_status [OF fa d]
      C10_RemoveMember_keeps_admin_status [OF fb d]
    by simp
qed

end
